theory Spec2Isabelle
  imports Main "HOL-Library.Sublist"
begin

section \<open>The C environment of \<^verbatim>\<open>error.c\<close>\<close>

text \<open>
  \<^verbatim>\<open>error.c\<close> is written against the C library: \<^verbatim>\<open>malloc\<close>, \<^verbatim>\<open>realloc\<close>, \<^verbatim>\<open>free\<close>,
  \<^verbatim>\<open>strlen\<close>, \<^verbatim>\<open>strcpy\<close>, \<^verbatim>\<open>strrchr\<close>, \<^verbatim>\<open>isatty\<close>, \<^verbatim>\<open>fflush\<close>, \<^verbatim>\<open>fprintf\<close>, \<^verbatim>\<open>vfprintf\<close>,
  \<^verbatim>\<open>strerror\<close> and \<^verbatim>\<open>exit\<close>. This section fixes the model of that environment: a
  block-structured heap, the process state, and the three ways a call can end.
\<close>

subsection \<open>Memory\<close>

text \<open>
  A pointer is \<^verbatim>\<open>NULL\<close> or a block with a byte offset. A block is a list of cells; a
  cell that was never written holds no value. Sizes (\<^verbatim>\<open>size_t\<close>) are natural numbers: no
  size computed here (\<^verbatim>\<open>strlen(s) + 1\<close>) can exceed the memory that holds the string.
\<close>

datatype ptr = Null | Ptr nat nat

type_synonym cell = "char option"

type_synonym heap = "(nat \<times> cell list) list"

abbreviation NUL :: char where
  "NUL \<equiv> CHR 0x00"

fun ptr_add :: "ptr \<Rightarrow> nat \<Rightarrow> ptr" where
  "ptr_add Null n = Null"
| "ptr_add (Ptr b off) n = Ptr b (off + n)"

fun ptr_block :: "ptr \<Rightarrow> nat option" where
  "ptr_block Null = None"
| "ptr_block (Ptr b off) = Some b"

text \<open>The characters from the head of a cell list up to the first \<^verbatim>\<open>'\0'\<close>; reading past
  the end of the block, or a cell without a value, is undefined (\<open>None\<close>).\<close>

fun cstring_of :: "cell list \<Rightarrow> string option" where
  "cstring_of [] = None"
| "cstring_of (None # cs) = None"
| "cstring_of (Some c # cs) =
     (if c = NUL then Some [] else map_option ((#) c) (cstring_of cs))"

fun load_string :: "heap \<Rightarrow> ptr \<Rightarrow> string option" where
  "load_string h Null = None"
| "load_string h (Ptr b off) =
     (case map_of h b of None \<Rightarrow> None | Some cs \<Rightarrow> cstring_of (drop off cs))"

text \<open>Writing cells through a pointer; a write through \<^verbatim>\<open>NULL\<close>, into a block that does
  not exist, or past the end of a block is undefined (\<open>None\<close>).\<close>

fun store_bytes :: "heap \<Rightarrow> ptr \<Rightarrow> cell list \<Rightarrow> heap option" where
  "store_bytes h Null cs = None"
| "store_bytes h (Ptr b off) cs =
     (case map_of h b of
        None \<Rightarrow> None
      | Some old \<Rightarrow>
          if off + length cs \<le> length old
          then Some ((b, take off old @ cs @ drop (off + length cs) old) # h)
          else None)"

definition fresh_block :: "heap \<Rightarrow> nat" where
  "fresh_block h = Suc (foldr max (map fst h) 0)"

subsection \<open>Process state\<close>

text \<open>Modelled from the spec: \<^verbatim>\<open>SourcePos\<close> is declared in \<^verbatim>\<open>error.h\<close>, which is absent;
  the spec gives it as a line and a column, and the code prints both with \<^verbatim>\<open>%d\<close>.\<close>

record SourcePos =
  line :: int
  col :: int

text \<open>What the terminal sees, in order: \<^verbatim>\<open>fflush(stdout)\<close> and each write to
  \<^verbatim>\<open>stderr\<close> (which is unbuffered).\<close>

datatype event = Flush_stdout | Write_stderr string

record world =
  blocks :: heap
  heap_free :: nat
  errno :: int
  trace :: "event list"
  position :: SourcePos
  pname :: ptr
  sname :: ptr

text \<open>A call returns a value, ends the process through \<^verbatim>\<open>exit\<close>, or has undefined
  behaviour (an invalid memory access).\<close>

datatype 'a outcome = Returns 'a world | Exits int world | Faults world

fun bind :: "'a outcome \<Rightarrow> ('a \<Rightarrow> world \<Rightarrow> 'b outcome) \<Rightarrow> 'b outcome" where
  "bind (Returns a w) f = f a w"
| "bind (Exits st w) f = Exits st w"
| "bind (Faults w) f = Faults w"

fun stderr_text :: "event list \<Rightarrow> string" where
  "stderr_text [] = []"
| "stderr_text (Flush_stdout # es) = stderr_text es"
| "stderr_text (Write_stderr s # es) = s @ stderr_text es"

subsection \<open>The C library\<close>

text \<open>
  The parts of the platform the code only calls: whether file descriptor 2 is a
  terminal, the text \<^verbatim>\<open>strerror\<close> gives for an error number, and the text \<^verbatim>\<open>vfprintf\<close>
  produces for a format and its arguments. The writes to \<^verbatim>\<open>stderr\<close> and the flush of
  \<^verbatim>\<open>stdout\<close> are taken to succeed, and so to leave \<^verbatim>\<open>errno\<close> as it is.
\<close>

datatype farg = FStr string | FSize nat | FInt int

record libc =
  isatty_stderr :: bool
  strerror :: "int \<Rightarrow> string"
  vformat :: "string \<Rightarrow> farg list \<Rightarrow> string"

definition ENOMEM :: int where
  "ENOMEM = 12"

definition ENOTTY :: int where
  "ENOTTY = 25"

text \<open>\<^verbatim>\<open>isatty(2)\<close>: on a terminal the answer is 1; otherwise it is 0 and the call sets
  \<^verbatim>\<open>errno\<close> to \<^verbatim>\<open>ENOTTY\<close>.\<close>

definition isatty :: "libc \<Rightarrow> world \<Rightarrow> bool \<times> world" where
  "isatty L w =
     (if isatty_stderr L then (True, w) else (False, w\<lparr>errno := ENOTTY\<rparr>))"

definition malloc :: "nat \<Rightarrow> world \<Rightarrow> ptr \<times> world" where
  "malloc n w =
     (if n \<le> heap_free w
      then (let b = fresh_block (blocks w)
            in (Ptr b 0, w\<lparr>blocks := (b, replicate n None) # blocks w,
                            heap_free := heap_free w - n\<rparr>))
      else (Null, w\<lparr>errno := ENOMEM\<rparr>))"

definition free :: "ptr \<Rightarrow> world \<Rightarrow> unit outcome" where
  "free p w =
     (case p of
        Null \<Rightarrow> Returns () w
      | Ptr b off \<Rightarrow>
          (case map_of (blocks w) b of
             None \<Rightarrow> Faults w
           | Some cs \<Rightarrow>
               if off = 0
               then Returns () (w\<lparr>blocks := filter (\<lambda>kv. fst kv \<noteq> b) (blocks w),
                                   heap_free := heap_free w + length cs\<rparr>)
               else Faults w))"

text \<open>\<^verbatim>\<open>realloc\<close>: a null pointer makes it \<^verbatim>\<open>malloc\<close>; size 0 frees the block and gives
  \<^verbatim>\<open>NULL\<close>; on failure the old block is untouched and the result is \<^verbatim>\<open>NULL\<close>; on success the
  contents move to a new block.\<close>

definition realloc :: "ptr \<Rightarrow> nat \<Rightarrow> world \<Rightarrow> ptr outcome" where
  "realloc vp n w =
     (case vp of
        Null \<Rightarrow> (case malloc n w of (p, w') \<Rightarrow> Returns p w')
      | Ptr b off \<Rightarrow>
          (case map_of (blocks w) b of
             None \<Rightarrow> Faults w
           | Some cs \<Rightarrow>
               if off \<noteq> 0 then Faults w
               else if n = 0
               then Returns Null
                      (w\<lparr>blocks := filter (\<lambda>kv. fst kv \<noteq> b) (blocks w),
                         heap_free := heap_free w + length cs\<rparr>)
               else if n \<le> heap_free w + length cs
               then (let h = filter (\<lambda>kv. fst kv \<noteq> b) (blocks w);
                         b' = fresh_block h
                     in Returns (Ptr b' 0)
                          (w\<lparr>blocks := (b', take n cs @ replicate (n - length cs) None) # h,
                             heap_free := heap_free w + length cs - n\<rparr>))
               else Returns Null (w\<lparr>errno := ENOMEM\<rparr>)))"

definition strlen :: "ptr \<Rightarrow> world \<Rightarrow> nat outcome" where
  "strlen s w =
     (case load_string (blocks w) s of
        None \<Rightarrow> Faults w
      | Some str \<Rightarrow> Returns (length str) w)"

text \<open>\<^verbatim>\<open>strcpy\<close> copies the string and its terminator; overlapping source and
  destination are undefined.\<close>

fun overlapping :: "ptr \<Rightarrow> ptr \<Rightarrow> nat \<Rightarrow> bool" where
  "overlapping (Ptr b i) (Ptr b' j) n = (b = b' \<and> i < j + n \<and> j < i + n)"
| "overlapping p q n = False"

definition strcpy :: "ptr \<Rightarrow> ptr \<Rightarrow> world \<Rightarrow> ptr outcome" where
  "strcpy dst src w =
     (case load_string (blocks w) src of
        None \<Rightarrow> Faults w
      | Some str \<Rightarrow>
          if overlapping dst src (Suc (length str)) then Faults w
          else (case store_bytes (blocks w) dst (map Some (str @ [NUL])) of
                  None \<Rightarrow> Faults w
                | Some h \<Rightarrow> Returns dst (w\<lparr>blocks := h\<rparr>)))"

text \<open>The index of the last occurrence of a character.\<close>

fun rindex :: "char \<Rightarrow> string \<Rightarrow> nat option" where
  "rindex c [] = None"
| "rindex c (x # xs) =
     (case rindex c xs of
        Some i \<Rightarrow> Some (Suc i)
      | None \<Rightarrow> if x = c then Some 0 else None)"

text \<open>\<^verbatim>\<open>strrchr\<close> searches the string with its terminator.\<close>

definition strrchr :: "ptr \<Rightarrow> char \<Rightarrow> world \<Rightarrow> ptr outcome" where
  "strrchr s c w =
     (case load_string (blocks w) s of
        None \<Rightarrow> Faults w
      | Some str \<Rightarrow>
          Returns (case rindex c (str @ [NUL]) of
                     None \<Rightarrow> Null
                   | Some i \<Rightarrow> ptr_add s i) w)"

definition fflush_stdout :: "world \<Rightarrow> unit outcome" where
  "fflush_stdout w = Returns () (w\<lparr>trace := trace w @ [Flush_stdout]\<rparr>)"

definition fprintf_stderr :: "string \<Rightarrow> world \<Rightarrow> unit outcome" where
  "fprintf_stderr s w = Returns () (w\<lparr>trace := trace w @ [Write_stderr s]\<rparr>)"

definition vfprintf_stderr :: "libc \<Rightarrow> string \<Rightarrow> farg list \<Rightarrow> world \<Rightarrow> unit outcome" where
  "vfprintf_stderr L fmt args w = fprintf_stderr (vformat L fmt args) w"

text \<open>The argument of a \<^verbatim>\<open>%s\<close> conversion: the string the pointer refers to.\<close>

definition string_arg :: "ptr \<Rightarrow> world \<Rightarrow> string outcome" where
  "string_arg p w =
     (case load_string (blocks w) p of
        None \<Rightarrow> Faults w
      | Some str \<Rightarrow> Returns str w)"

definition exit_process :: "int \<Rightarrow> world \<Rightarrow> 'a outcome" where
  "exit_process st w = Exits st w"

text \<open>\<^verbatim>\<open>%d\<close> of an \<^verbatim>\<open>int\<close>.\<close>

fun dec_nat :: "nat \<Rightarrow> string" where
  "dec_nat n =
     (if n < 10 then [''0123456789'' ! n]
      else dec_nat (n div 10) @ [''0123456789'' ! (n mod 10)])"

declare dec_nat.simps [simp del]

definition dec_int :: "int \<Rightarrow> string" where
  "dec_int i = (if i < 0 then CHR ''-'' # dec_nat (nat (- i)) else dec_nat (nat i))"

section \<open>\<^verbatim>\<open>error.c\<close>\<close>

subsection \<open>ASCII colours\<close>

definition ESC :: string where
  "ESC = [CHR 0x1B, CHR ''['']"

definition BOLD :: string where
  "BOLD = ''1;''"

definition ASCII_RESET :: string where
  "ASCII_RESET = ESC @ ''m''"

definition ASCII_BOLD_RED :: string where
  "ASCII_BOLD_RED = ESC @ BOLD @ ''31m''"

definition ASCII_BOLD_YELLOW :: string where
  "ASCII_BOLD_YELLOW = ESC @ BOLD @ ''33m''"

definition ASCII_BOLD_WHITE :: string where
  "ASCII_BOLD_WHITE = ESC @ BOLD @ ''37m''"

subsection \<open>Error routines\<close>

text \<open>The build that is not \<^verbatim>\<open>__APPLE__\<close>: the module keeps \<^verbatim>\<open>pname\<close> itself.\<close>

definition getprogname :: "world \<Rightarrow> ptr" where
  "getprogname w = pname w"

definition getsrcname :: "world \<Rightarrow> ptr" where
  "getsrcname w = sname w"

text \<open>
  \<^verbatim>\<open>_weprintf(pre, pos, fmt, args)\<close>. \<open>pre\<close> and \<open>pos\<close> may be \<^verbatim>\<open>NULL\<close> (\<open>None\<close>); \<open>pre\<close>
  and \<open>fmt\<close> are given by their characters before the terminator.
\<close>

definition uweprintf ::
  "libc \<Rightarrow> string option \<Rightarrow> SourcePos option \<Rightarrow> string \<Rightarrow> farg list \<Rightarrow> world \<Rightarrow> unit outcome"
where
  "uweprintf L pre pos fmt args w =
     (case isatty L w of (istty, w0) \<Rightarrow>
      let ac_end = (if istty then ASCII_RESET else []);
          ac_src = (if istty then ASCII_BOLD_WHITE else []);
          ac_pos = (if istty then ASCII_BOLD_WHITE else []);
          progname = getprogname w0;
          srcname = getsrcname w0
      in
      bind (fflush_stdout w0) (\<lambda>_ w1.
      bind (if progname \<noteq> Null
            then bind (string_arg progname w1) (\<lambda>s. fprintf_stderr (s @ '':''))
            else Returns () w1) (\<lambda>_ w2.
      bind (if srcname \<noteq> Null
            then bind (string_arg srcname w2)
                   (\<lambda>s. fprintf_stderr ('' '' @ ac_src @ s @ '':'' @ ac_end))
            else Returns () w2) (\<lambda>_ w3.
      bind (case pos of
              Some p \<Rightarrow>
                fprintf_stderr
                  (ac_pos @ dec_int (line p) @ '':'' @ dec_int (col p) @ ac_end @ '':'') w3
            | None \<Rightarrow> Returns () w3) (\<lambda>_ w4.
      bind (case pre of
              Some t \<Rightarrow> fprintf_stderr ('' '' @ t @ '' '') w4
            | None \<Rightarrow> fprintf_stderr '' '' w4) (\<lambda>_ w5.
      bind (vfprintf_stderr L fmt args w5) (\<lambda>_ w6.
      bind (if fmt \<noteq> [] \<and> fmt ! (length fmt - 1) = CHR '':''
            then fprintf_stderr ('' '' @ strerror L (errno w6)) w6
            else Returns () w6) (\<lambda>_ w7.
      fprintf_stderr [CHR 0x0A] w7))))))))"

definition eprintf :: "libc \<Rightarrow> string \<Rightarrow> farg list \<Rightarrow> world \<Rightarrow> 'a outcome" where
  "eprintf L fmt args w =
     (case isatty L w of (istty, w0) \<Rightarrow>
      let pre = (if istty then ASCII_BOLD_RED @ ''Error:'' @ ASCII_RESET else ''Error:'')
      in bind (uweprintf L (Some pre) None fmt args w0) (\<lambda>_ w'. exit_process 2 w'))"

definition leprintf :: "libc \<Rightarrow> string \<Rightarrow> farg list \<Rightarrow> world \<Rightarrow> 'a outcome" where
  "leprintf L fmt args w =
     (case isatty L w of (istty, w0) \<Rightarrow>
      let pre = (if istty then ASCII_BOLD_RED @ ''Error:'' @ ASCII_RESET else ''Error:'')
      in bind (uweprintf L (Some pre) (Some (position w0)) fmt args w0)
           (\<lambda>_ w'. exit_process 2 w'))"

definition weprintf :: "libc \<Rightarrow> string \<Rightarrow> farg list \<Rightarrow> world \<Rightarrow> unit outcome" where
  "weprintf L fmt args w =
     (case isatty L w of (istty, w0) \<Rightarrow>
      let pre = (if istty then ASCII_BOLD_YELLOW @ ''Warning:'' @ ASCII_RESET
                 else ''Warning:'')
      in uweprintf L (Some pre) None fmt args w0)"

definition teprintf ::
  "libc \<Rightarrow> string option \<Rightarrow> string \<Rightarrow> farg list \<Rightarrow> world \<Rightarrow> 'a outcome"
where
  "teprintf L tag fmt args w =
     bind (uweprintf L tag (Some (position w)) fmt args w) (\<lambda>_ w'. exit_process 3 w')"

subsection \<open>Checked allocation\<close>

definition estrdup :: "libc \<Rightarrow> ptr \<Rightarrow> world \<Rightarrow> ptr outcome" where
  \<open>estrdup L s w0 =
     bind (strlen s w0) (\<lambda>n w1.
     case malloc ((n + 1) * 1) w1 of (t, w2) \<Rightarrow>
     bind (if t = Null
           then bind (string_arg s w2)
                  (\<lambda>str. eprintf L ''estrdup("%.20s") failed:'' [FStr str])
           else Returns () w2) (\<lambda>_ w3.
     bind (strcpy t s w3) (\<lambda>_ w4.
     Returns t w4)))\<close>

definition westrdup :: "libc \<Rightarrow> ptr \<Rightarrow> world \<Rightarrow> ptr outcome" where
  \<open>westrdup L s w0 =
     bind (strlen s w0) (\<lambda>n w1.
     case malloc ((n + 1) * 1) w1 of (t, w2) \<Rightarrow>
     bind (if t = Null
           then bind (string_arg s w2)
                  (\<lambda>str. weprintf L ''estrdup("%.20s") failed:'' [FStr str])
           else Returns () w2) (\<lambda>_ w3.
     bind (strcpy t s w3) (\<lambda>_ w4.
     Returns t w4)))\<close>

definition emalloc :: "libc \<Rightarrow> nat \<Rightarrow> world \<Rightarrow> ptr outcome" where
  "emalloc L n w0 =
     (case malloc n w0 of (p, w1) \<Rightarrow>
      bind (if p = Null then eprintf L ''malloc of %u bytes failed:'' [FSize n] w1
            else Returns () w1) (\<lambda>_ w2.
      Returns p w2))"

definition wemalloc :: "libc \<Rightarrow> nat \<Rightarrow> world \<Rightarrow> ptr outcome" where
  "wemalloc L n w0 =
     (case malloc n w0 of (p, w1) \<Rightarrow>
      bind (if p = Null then weprintf L ''malloc of %u bytes failed:'' [FSize n] w1
            else Returns () w1) (\<lambda>_ w2.
      Returns p w2))"

definition erealloc :: "libc \<Rightarrow> ptr \<Rightarrow> nat \<Rightarrow> world \<Rightarrow> ptr outcome" where
  "erealloc L vp n w0 =
     bind (realloc vp n w0) (\<lambda>p w1.
     bind (if p = Null then eprintf L ''realloc of %u bytes failed:'' [FSize n] w1
           else Returns () w1) (\<lambda>_ w2.
     Returns p w2))"

definition werealloc :: "libc \<Rightarrow> ptr \<Rightarrow> nat \<Rightarrow> world \<Rightarrow> ptr outcome" where
  "werealloc L vp n w0 =
     bind (realloc vp n w0) (\<lambda>p w1.
     bind (if p = Null then weprintf L ''realloc of %u bytes failed:'' [FSize n] w1
           else Returns () w1) (\<lambda>_ w2.
     Returns p w2))"

subsection \<open>Naming state\<close>

definition setprogname :: "libc \<Rightarrow> ptr \<Rightarrow> world \<Rightarrow> unit outcome" where
  "setprogname L s w0 =
     bind (strrchr s CHR ''/'' w0) (\<lambda>r w1.
     let c = (if r = Null then s else ptr_add r 1)
     in bind (estrdup L c w1) (\<lambda>t w2.
        Returns () (w2\<lparr>pname := t\<rparr>)))"

definition setsrcname :: "libc \<Rightarrow> ptr \<Rightarrow> world \<Rightarrow> unit outcome" where
  "setsrcname L s w0 =
     bind (strrchr s CHR ''/'' w0) (\<lambda>r w1.
     let c = (if r = Null then s else ptr_add r 1)
     in bind (estrdup L c w1) (\<lambda>t w2.
        Returns () (w2\<lparr>sname := t\<rparr>)))"

definition freeprogname :: "world \<Rightarrow> unit outcome" where
  "freeprogname w = free (pname w) w"

definition freesrcname :: "world \<Rightarrow> unit outcome" where
  "freesrcname w = free (sname w) w"

section \<open>Vocabulary of the properties\<close>

text \<open>A name pointer of the module is in order: \<^verbatim>\<open>NULL\<close> when the name is not set
  (\<open>None\<close>), and otherwise it refers to a terminated string.\<close>

fun name_at :: "world \<Rightarrow> ptr \<Rightarrow> string option \<Rightarrow> bool" where
  "name_at w p None = (p = Null)"
| "name_at w p (Some s) = (p \<noteq> Null \<and> load_string (blocks w) p = Some s)"

text \<open>An escape sequence that is only written to a terminal.\<close>

definition colour_on :: "libc \<Rightarrow> string \<Rightarrow> string" where
  "colour_on L c = (if isatty_stderr L then c else [])"

text \<open>The diagnostic as the design describes it: the events of one call of the shared
  routine, for the names \<open>pn\<close> and \<open>sn\<close>, in order.\<close>

definition diag_events ::
  "libc \<Rightarrow> string option \<Rightarrow> string option \<Rightarrow> SourcePos option \<Rightarrow> string option \<Rightarrow>
   string \<Rightarrow> farg list \<Rightarrow> int \<Rightarrow> event list"
where
  "diag_events L pn sn pos pre fmt args e =
     [Flush_stdout] @
     (case pn of None \<Rightarrow> [] | Some p \<Rightarrow> [Write_stderr (p @ '':'')]) @
     (case sn of
        None \<Rightarrow> []
      | Some s \<Rightarrow>
          [Write_stderr ('' '' @ colour_on L ASCII_BOLD_WHITE @ s @ '':'' @ colour_on L ASCII_RESET)]) @
     (case pos of
        None \<Rightarrow> []
      | Some p \<Rightarrow>
          [Write_stderr (colour_on L ASCII_BOLD_WHITE @ dec_int (line p) @ '':'' @ dec_int (col p) @
             colour_on L ASCII_RESET @ '':'')]) @
     [Write_stderr (case pre of None \<Rightarrow> '' '' | Some t \<Rightarrow> '' '' @ t @ '' '')] @
     [Write_stderr (vformat L fmt args)] @
     (if fmt \<noteq> [] \<and> last fmt = CHR '':'' then [Write_stderr ('' '' @ strerror L e)] else []) @
     [Write_stderr [CHR 0x0A]]"

text \<open>The severity tags that \<^verbatim>\<open>eprintf\<close>, \<^verbatim>\<open>leprintf\<close> and \<^verbatim>\<open>weprintf\<close> pass on.\<close>

definition error_tag :: "libc \<Rightarrow> string" where
  "error_tag L = colour_on L ASCII_BOLD_RED @ ''Error:'' @ colour_on L ASCII_RESET"

definition warning_tag :: "libc \<Rightarrow> string" where
  "warning_tag L = colour_on L ASCII_BOLD_YELLOW @ ''Warning:'' @ colour_on L ASCII_RESET"

text \<open>The final component of a path: what follows its last \<^verbatim>\<open>'/'\<close>, or the whole
  path when it has no separator.\<close>

definition is_final_component :: "string \<Rightarrow> string \<Rightarrow> bool" where
  "is_final_component path nm \<longleftrightarrow>
     CHR ''/'' \<notin> set nm \<and> (path = nm \<or> (\<exists>d. path = d @ CHR ''/'' # nm))"

text \<open>The state a call ends in, and the events it added to the trace.\<close>

fun final_world :: "'a outcome \<Rightarrow> world" where
  "final_world (Returns a w) = w"
| "final_world (Exits st w) = w"
| "final_world (Faults w) = w"

definition emitted :: "world \<Rightarrow> 'a outcome \<Rightarrow> event list" where
  "emitted w r = drop (length (trace w)) (trace (final_world r))"

text \<open>A text without the escape character that starts every ANSI sequence.\<close>

definition esc_free :: "string \<Rightarrow> bool" where
  "esc_free s \<longleftrightarrow> CHR 0x1B \<notin> set s"

definition diag_prefix ::
  "libc \<Rightarrow> string option \<Rightarrow> string option \<Rightarrow> SourcePos option \<Rightarrow> string option \<Rightarrow> string"
where
  "diag_prefix L pn sn pos pre =
     (case pn of None \<Rightarrow> [] | Some p \<Rightarrow> p @ '':'') @
     (case sn of
        None \<Rightarrow> []
      | Some s \<Rightarrow> '' '' @ colour_on L ASCII_BOLD_WHITE @ s @ '':'' @ colour_on L ASCII_RESET) @
     (case pos of
        None \<Rightarrow> []
      | Some p \<Rightarrow>
          colour_on L ASCII_BOLD_WHITE @ dec_int (line p) @ '':'' @ dec_int (col p) @
          colour_on L ASCII_RESET @ '':'') @
     (case pre of None \<Rightarrow> '' '' | Some t \<Rightarrow> '' '' @ t @ '' '')"

subsection \<open>A sample platform and state\<close>

text \<open>A formatter for the conversions this file uses (\<^verbatim>\<open>%.20s\<close> and \<^verbatim>\<open>%u\<close>); the first
  argument counts the characters of a conversion still to skip.\<close>

fun sample_vformat_from :: "nat \<Rightarrow> string \<Rightarrow> farg list \<Rightarrow> string" where
  "sample_vformat_from k [] as = []"
| "sample_vformat_from (Suc k) (c # cs) as = sample_vformat_from k cs as"
| "sample_vformat_from 0 (c # cs) as =
     (if prefix ''%.20s'' (c # cs)
      then (case as of
              FStr s # as' \<Rightarrow> take 20 s @ sample_vformat_from (Suc (Suc (Suc (Suc 0)))) cs as'
            | _ \<Rightarrow> sample_vformat_from (Suc (Suc (Suc (Suc 0)))) cs as)
      else if prefix ''%u'' (c # cs)
      then (case as of
              FSize n # as' \<Rightarrow> dec_nat n @ sample_vformat_from (Suc 0) cs as'
            | _ \<Rightarrow> sample_vformat_from (Suc 0) cs as)
      else c # sample_vformat_from 0 cs as)"

definition sample_strerror :: "int \<Rightarrow> string" where
  "sample_strerror e =
     (if e = 2 then ''No such file or directory''
      else if e = 12 then ''Cannot allocate memory''
      else if e = 25 then ''Inappropriate ioctl for device''
      else ''Unknown error'')"

definition file_libc :: libc where
  "file_libc = \<lparr>isatty_stderr = False, strerror = sample_strerror,
                 vformat = sample_vformat_from 0\<rparr>"

definition tty_libc :: libc where
  "tty_libc = \<lparr>isatty_stderr = True, strerror = sample_strerror,
                vformat = sample_vformat_from 0\<rparr>"

text \<open>A state with the program name \<^verbatim>\<open>cc\<close>, the source name \<^verbatim>\<open>t.src\<close> and the paths
  \<^verbatim>\<open>/a/b/c.src\<close> and \<^verbatim>\<open>src/\<close> in memory, at line 3, column 7; and the same state with no
  memory left.\<close>

definition sample_world :: world where
  "sample_world =
     \<lparr>blocks = [(4, map Some ''src/'' @ [Some NUL]),
                (3, map Some ''/a/b/c.src'' @ [Some NUL]),
                (2, map Some ''t.src'' @ [Some NUL]),
                (1, map Some ''cc'' @ [Some NUL])],
      heap_free = 64, errno = 2, trace = [],
      position = \<lparr>line = 3, col = 7\<rparr>,
      pname = Ptr 1 0, sname = Ptr 2 0\<rparr>"

definition full_world :: world where
  "full_world = sample_world\<lparr>heap_free := 0\<rparr>"

text \<open>The state \<^verbatim>\<open>isatty(2)\<close> leaves: \<^verbatim>\<open>errno\<close> is \<^verbatim>\<open>ENOTTY\<close> off a terminal, and nothing else
  has changed.\<close>

definition after_isatty :: "libc \<Rightarrow> world \<Rightarrow> world" where
  "after_isatty L w = snd (isatty L w)"

section \<open>Lemmas\<close>

subsection \<open>The shared routine\<close>

lemma nth_last_char:
  "(fmt \<noteq> [] \<and> fmt ! (length fmt - Suc 0) = c) = (fmt \<noteq> [] \<and> last fmt = c)"
  by (auto simp: last_conv_nth)

lemma isatty_eq: "isatty L w = (isatty_stderr L, after_isatty L w)"
  by (simp add: isatty_def after_isatty_def)

lemma after_isatty_fields [simp]:
  "blocks (after_isatty L w) = blocks w"
  "heap_free (after_isatty L w) = heap_free w"
  "trace (after_isatty L w) = trace w"
  "position (after_isatty L w) = position w"
  "pname (after_isatty L w) = pname w"
  "sname (after_isatty L w) = sname w"
  by (simp_all add: isatty_def after_isatty_def)

lemma errno_after_isatty:
  "errno (after_isatty L w) = (if isatty_stderr L then errno w else ENOTTY)"
  by (simp add: isatty_def after_isatty_def)

lemma after_isatty_twice [simp]: "after_isatty L (after_isatty L w) = after_isatty L w"
  by (simp add: isatty_def after_isatty_def)

lemma after_isatty_on_terminal: "isatty_stderr L \<Longrightarrow> after_isatty L w = w"
  by (simp add: isatty_def after_isatty_def)

lemma uweprintf_trace:
  assumes "name_at w (pname w) pn" and "name_at w (sname w) sn"
  shows "uweprintf L pre pos fmt args w =
           Returns ()
             ((after_isatty L w)\<lparr>trace := trace w @
                diag_events L pn sn pos pre fmt args (errno (after_isatty L w))\<rparr>)"
  using assms
  by (cases pn; cases sn; cases pos; cases pre)
     (simp_all add: uweprintf_def isatty_eq diag_events_def colour_on_def getprogname_def
        getsrcname_def fflush_stdout_def fprintf_stderr_def vfprintf_stderr_def string_arg_def
        nth_last_char Let_def)

subsection \<open>Strings in memory\<close>

lemma cstring_of_string:
  "NUL \<notin> set s \<Longrightarrow> cstring_of (map Some s @ Some NUL # rest) = Some s"
  by (induction s) auto

lemma cstring_of_SomeD:
  "cstring_of cs = Some s \<Longrightarrow> NUL \<notin> set s \<and> (\<exists>rest. cs = map Some s @ Some NUL # rest)"
proof (induction cs arbitrary: s rule: cstring_of.induct)
  case 1
  then show ?case by simp
next
  case (2 cs)
  then show ?case by simp
next
  case (3 c cs)
  show ?case
  proof (cases "c = NUL")
    case True
    with 3 show ?thesis by auto
  next
    case False
    with "3.prems" obtain t where t: "cstring_of cs = Some t" "s = c # t"
      by auto
    from "3.IH" [OF False t(1)] False t(2) show ?thesis by auto
  qed
qed

lemma cstring_of_drop:
  assumes "cstring_of cs = Some s" and "i \<le> length s"
  shows "cstring_of (drop i cs) = Some (drop i s)"
proof -
  from cstring_of_SomeD [OF assms(1)] obtain rest where
    n: "NUL \<notin> set s" and cs: "cs = map Some s @ Some NUL # rest"
    by blast
  have "drop i cs = map Some (drop i s) @ Some NUL # rest"
    using assms(2) by (simp add: cs drop_map)
  moreover have "NUL \<notin> set (drop i s)"
    using n by (meson in_set_dropD)
  ultimately show ?thesis
    by (simp add: cstring_of_string)
qed

lemma load_string_ptr_add:
  assumes "load_string h p = Some s" and "i \<le> length s"
  shows "load_string h (ptr_add p i) = Some (drop i s)"
proof (cases p)
  case Null
  with assms show ?thesis by simp
next
  case (Ptr b off)
  with assms(1) obtain cs where cs: "map_of h b = Some cs" "cstring_of (drop off cs) = Some s"
    by (auto split: option.splits)
  have "drop (off + i) cs = drop i (drop off cs)"
    by (simp add: add.commute)
  with cstring_of_drop [OF cs(2) assms(2)] cs(1) Ptr show ?thesis
    by simp
qed

lemma foldr_max_ge: "k \<in> set ks \<Longrightarrow> k \<le> foldr max ks (0::nat)"
  by (induction ks) (auto simp: max_def)

lemma fresh_block_unused: "map_of h (fresh_block h) = None"
proof -
  have "fresh_block h \<notin> fst ` set h"
  proof
    assume "fresh_block h \<in> fst ` set h"
    then have "fresh_block h \<in> set (map fst h)" by simp
    from foldr_max_ge [OF this] show False
      by (simp add: fresh_block_def)
  qed
  then show ?thesis
    by (simp add: map_of_eq_None_iff)
qed

lemma load_string_block:
  "load_string h p = Some s \<Longrightarrow> \<exists>b off cs. p = Ptr b off \<and> map_of h b = Some cs"
  by (cases p) (auto split: option.splits)

lemma load_string_other_block:
  "ptr_block p \<noteq> Some b \<Longrightarrow> load_string ((b, cs) # h) p = load_string h p"
  by (cases p) auto

lemma rindex_None: "rindex c xs = None \<longleftrightarrow> c \<notin> set xs"
  by (induction xs) (auto split: option.splits)

lemma rindex_last: "c \<notin> set n \<Longrightarrow> rindex c (d @ c # n) = Some (length d)"
proof (induction d)
  case Nil
  then show ?case
    using rindex_None [of c n] by simp
next
  case (Cons x d)
  then show ?case by simp
qed

subsection \<open>Duplication\<close>

lemma malloc_Null: "fst (malloc n w) = Null \<longleftrightarrow> \<not> n \<le> heap_free w"
  by (simp add: malloc_def Let_def)

lemma estrdup_ok:
  assumes "load_string (blocks w) s = Some str" and "Suc (length str) \<le> heap_free w"
  shows "estrdup L s w =
           Returns (Ptr (fresh_block (blocks w)) 0)
             (w\<lparr>blocks := (fresh_block (blocks w), map Some str @ [Some NUL]) #
                           (fresh_block (blocks w), replicate (Suc (length str)) None) #
                           blocks w,
                 heap_free := heap_free w - Suc (length str)\<rparr>)"
proof -
  let ?b = "fresh_block (blocks w)"
  from load_string_block [OF assms(1)] obtain b off cs where
    p: "s = Ptr b off" "map_of (blocks w) b = Some cs"
    by blast
  have ne: "b \<noteq> ?b"
    using p(2) fresh_block_unused [of "blocks w"] by auto
  then have other: "ptr_block s \<noteq> Some ?b"
    by (simp add: p(1))
  show ?thesis
    using assms ne load_string_other_block [OF other]
    by (simp add: estrdup_def strlen_def malloc_def strcpy_def Let_def p(1))
qed

subsection \<open>The public reporting routines\<close>

lemma name_at_blocks: "blocks w1 = blocks w \<Longrightarrow> name_at w1 p n = name_at w p n"
  by (cases n) simp_all

lemma name_at_errno [simp]: "name_at (w\<lparr>errno := e\<rparr>) p n = name_at w p n"
  by (rule name_at_blocks) simp

lemma name_at_after_isatty [simp]: "name_at (after_isatty L w) p n = name_at w p n"
  by (rule name_at_blocks) simp

lemma eprintf_exits:
  assumes "name_at w (pname w) pn" and "name_at w (sname w) sn"
  shows "eprintf L fmt args w =
           Exits 2 ((after_isatty L w)\<lparr>trace := trace w @
                      diag_events L pn sn None (Some (error_tag L)) fmt args
                        (errno (after_isatty L w))\<rparr>)"
proof -
  have n: "name_at (after_isatty L w) (pname (after_isatty L w)) pn"
    "name_at (after_isatty L w) (sname (after_isatty L w)) sn"
    using assms by simp_all
  show ?thesis
    by (simp add: eprintf_def isatty_eq uweprintf_trace [OF n] exit_process_def error_tag_def
        colour_on_def Let_def)
qed

lemma leprintf_exits:
  assumes "name_at w (pname w) pn" and "name_at w (sname w) sn"
  shows "leprintf L fmt args w =
           Exits 2 ((after_isatty L w)\<lparr>trace := trace w @
                      diag_events L pn sn (Some (position w)) (Some (error_tag L)) fmt args
                        (errno (after_isatty L w))\<rparr>)"
proof -
  have n: "name_at (after_isatty L w) (pname (after_isatty L w)) pn"
    "name_at (after_isatty L w) (sname (after_isatty L w)) sn"
    using assms by simp_all
  show ?thesis
    by (simp add: leprintf_def isatty_eq uweprintf_trace [OF n] exit_process_def error_tag_def
        colour_on_def Let_def)
qed

lemma weprintf_returns:
  assumes "name_at w (pname w) pn" and "name_at w (sname w) sn"
  shows "weprintf L fmt args w =
           Returns () ((after_isatty L w)\<lparr>trace := trace w @
                      diag_events L pn sn None (Some (warning_tag L)) fmt args
                        (errno (after_isatty L w))\<rparr>)"
proof -
  have n: "name_at (after_isatty L w) (pname (after_isatty L w)) pn"
    "name_at (after_isatty L w) (sname (after_isatty L w)) sn"
    using assms by simp_all
  show ?thesis
    by (simp add: weprintf_def isatty_eq uweprintf_trace [OF n] warning_tag_def colour_on_def
        Let_def)
qed

lemma teprintf_exits:
  assumes "name_at w (pname w) pn" and "name_at w (sname w) sn"
  shows "teprintf L tag fmt args w =
           Exits 3 ((after_isatty L w)\<lparr>trace := trace w @
                      diag_events L pn sn (Some (position w)) tag fmt args
                        (errno (after_isatty L w))\<rparr>)"
  by (simp add: teprintf_def uweprintf_trace [OF assms] exit_process_def)

subsection \<open>Failed allocations\<close>

text \<open>The Die helpers end the process with status 2, and \<^verbatim>\<open>wemalloc\<close> and \<^verbatim>\<open>werealloc\<close>
  return \<^verbatim>\<open>NULL\<close> after their warning; \<^verbatim>\<open>westrdup\<close> goes on to \<^verbatim>\<open>strcpy\<close> with the null pointer.\<close>

lemma estrdup_dies:
  assumes "load_string (blocks w) s = Some str" and "\<not> Suc (length str) \<le> heap_free w"
    and "name_at w (pname w) pn" and "name_at w (sname w) sn"
  shows \<open>estrdup L s w =
           Exits 2 ((after_isatty L (w\<lparr>errno := ENOMEM\<rparr>))\<lparr>trace := trace w @
                        diag_events L pn sn None (Some (error_tag L))
                          ''estrdup("%.20s") failed:'' [FStr str]
                          (errno (after_isatty L (w\<lparr>errno := ENOMEM\<rparr>)))\<rparr>)\<close>
proof -
  let ?w = "w\<lparr>errno := ENOMEM\<rparr>"
  have n: "name_at ?w (pname ?w) pn" "name_at ?w (sname ?w) sn"
    using assms(3,4) by simp_all
  show ?thesis
    using assms(1,2)
    by (simp add: estrdup_def strlen_def malloc_def string_arg_def eprintf_exits [OF n])
qed

lemma westrdup_faults:
  assumes "load_string (blocks w) s = Some str" and "\<not> Suc (length str) \<le> heap_free w"
    and "name_at w (pname w) pn" and "name_at w (sname w) sn"
  shows \<open>westrdup L s w =
           Faults ((after_isatty L (w\<lparr>errno := ENOMEM\<rparr>))\<lparr>trace := trace w @
                        diag_events L pn sn None (Some (warning_tag L))
                          ''estrdup("%.20s") failed:'' [FStr str]
                          (errno (after_isatty L (w\<lparr>errno := ENOMEM\<rparr>)))\<rparr>)\<close>
proof -
  let ?w = "w\<lparr>errno := ENOMEM\<rparr>"
  have n: "name_at ?w (pname ?w) pn" "name_at ?w (sname ?w) sn"
    using assms(3,4) by simp_all
  show ?thesis
    using assms(1,2)
    by (simp add: westrdup_def strlen_def malloc_def string_arg_def weprintf_returns [OF n]
        strcpy_def)
qed

lemma emalloc_dies:
  assumes "\<not> n \<le> heap_free w" and "name_at w (pname w) pn" and "name_at w (sname w) sn"
  shows "emalloc L n w =
           Exits 2 ((after_isatty L (w\<lparr>errno := ENOMEM\<rparr>))\<lparr>trace := trace w @
                        diag_events L pn sn None (Some (error_tag L))
                          ''malloc of %u bytes failed:'' [FSize n]
                          (errno (after_isatty L (w\<lparr>errno := ENOMEM\<rparr>)))\<rparr>)"
proof -
  let ?w = "w\<lparr>errno := ENOMEM\<rparr>"
  have n: "name_at ?w (pname ?w) pn" "name_at ?w (sname ?w) sn"
    using assms(2,3) by simp_all
  show ?thesis
    using assms(1) by (simp add: emalloc_def malloc_def eprintf_exits [OF n])
qed

lemma wemalloc_null:
  assumes "\<not> n \<le> heap_free w" and "name_at w (pname w) pn" and "name_at w (sname w) sn"
  shows "wemalloc L n w =
           Returns Null ((after_isatty L (w\<lparr>errno := ENOMEM\<rparr>))\<lparr>trace := trace w @
                        diag_events L pn sn None (Some (warning_tag L))
                          ''malloc of %u bytes failed:'' [FSize n]
                          (errno (after_isatty L (w\<lparr>errno := ENOMEM\<rparr>)))\<rparr>)"
proof -
  let ?w = "w\<lparr>errno := ENOMEM\<rparr>"
  have n: "name_at ?w (pname ?w) pn" "name_at ?w (sname ?w) sn"
    using assms(2,3) by simp_all
  show ?thesis
    using assms(1) by (simp add: wemalloc_def malloc_def weprintf_returns [OF n])
qed

lemma realloc_Null_trace:
  assumes "realloc vp n w = Returns Null w1"
  shows "trace w1 = trace w"
  using assms
  by (auto simp: realloc_def malloc_def Let_def split: ptr.splits option.splits if_splits)

lemma erealloc_dies:
  assumes "realloc vp n w = Returns Null w1"
    and "name_at w1 (pname w1) pn" and "name_at w1 (sname w1) sn"
  shows "erealloc L vp n w =
           Exits 2 ((after_isatty L w1)\<lparr>trace := trace w @
                        diag_events L pn sn None (Some (error_tag L))
                          ''realloc of %u bytes failed:'' [FSize n]
                          (errno (after_isatty L w1))\<rparr>)"
  by (simp add: erealloc_def assms(1) eprintf_exits [OF assms(2,3)]
      realloc_Null_trace [OF assms(1)])

lemma werealloc_null:
  assumes "realloc vp n w = Returns Null w1"
    and "name_at w1 (pname w1) pn" and "name_at w1 (sname w1) sn"
  shows "werealloc L vp n w =
           Returns Null ((after_isatty L w1)\<lparr>trace := trace w @
                        diag_events L pn sn None (Some (warning_tag L))
                          ''realloc of %u bytes failed:'' [FSize n]
                          (errno (after_isatty L w1))\<rparr>)"
  by (simp add: werealloc_def assms(1) weprintf_returns [OF assms(2,3)]
      realloc_Null_trace [OF assms(1)])

subsection \<open>The setters\<close>

lemma final_component_exists: "\<exists>nm. is_final_component path nm"
proof (cases "CHR ''/'' \<in> set path")
  case False
  then show ?thesis
    by (auto simp: is_final_component_def)
next
  case True
  then obtain d n where "path = d @ CHR ''/'' # n" "CHR ''/'' \<notin> set n"
    by (meson split_list_last)
  then show ?thesis
    by (auto simp: is_final_component_def)
qed

lemma load_string_NUL_free: "load_string h p = Some s \<Longrightarrow> NUL \<notin> set s"
  by (cases p) (auto split: option.splits dest: cstring_of_SomeD)

lemma load_string_not_Null: "load_string h p = Some s \<Longrightarrow> p \<noteq> Null"
  by (cases p) auto

lemma cstring_of_terminated: "NUL \<notin> set s \<Longrightarrow> cstring_of (map Some s @ [Some NUL]) = Some s"
  by (rule cstring_of_string)

text \<open>The pointer \<open>c\<close> that both setters hand to \<open>estrdup\<close>.\<close>

lemma component_pointer:
  assumes "load_string (blocks w) s = Some path" and "is_final_component path nm"
  shows "\<exists>r. strrchr s CHR ''/'' w = Returns r w \<and>
             load_string (blocks w) (if r = Null then s else ptr_add r 1) = Some nm"
proof -
  from assms(2) have free: "CHR ''/'' \<notin> set nm"
    and shape: "path = nm \<or> (\<exists>d. path = d @ CHR ''/'' # nm)"
    by (simp_all add: is_final_component_def)
  from shape show ?thesis
  proof
    assume eq: "path = nm"
    then have "rindex CHR ''/'' (path @ [NUL]) = None"
      using free by (simp add: rindex_None)
    then show ?thesis
      using assms(1) eq by (simp add: strrchr_def)
  next
    assume "\<exists>d. path = d @ CHR ''/'' # nm"
    then obtain d where d: "path = d @ CHR ''/'' # nm"
      by blast
    have "rindex CHR ''/'' (d @ CHR ''/'' # (nm @ [NUL])) = Some (length d)"
      using free by (intro rindex_last) simp
    then have r: "strrchr s CHR ''/'' w = Returns (ptr_add s (length d)) w"
      using assms(1) by (simp add: strrchr_def d)
    obtain b off where p: "s = Ptr b off"
      using load_string_not_Null [OF assms(1)] by (cases s) auto
    have "load_string (blocks w) (ptr_add s (Suc (length d))) = Some (drop (Suc (length d)) path)"
      using assms(1) by (intro load_string_ptr_add) (simp_all add: d)
    then have "load_string (blocks w) (ptr_add (ptr_add s (length d)) 1) = Some nm"
      by (simp add: p d)
    with r show ?thesis
      by (simp add: p)
  qed
qed

lemma setsrcname_ok:
  assumes "load_string (blocks w) s = Some path" and "is_final_component path nm"
    and "Suc (length nm) \<le> heap_free w"
  shows "\<exists>w'. setsrcname L s w = Returns () w' \<and> sname w' \<noteq> Null \<and>
              load_string (blocks w') (sname w') = Some nm \<and> pname w' = pname w \<and>
              trace w' = trace w"
proof -
  from component_pointer [OF assms(1,2)] obtain r where
    r: "strrchr s CHR ''/'' w = Returns r w"
    and c: "load_string (blocks w) (if r = Null then s else ptr_add r 1) = Some nm"
    by blast
  from load_string_NUL_free [OF c] have "NUL \<notin> set nm" .
  then show ?thesis
    by (simp add: setsrcname_def r estrdup_ok [OF c assms(3)] cstring_of_terminated Let_def)
qed

lemma setprogname_ok:
  assumes "load_string (blocks w) s = Some path" and "is_final_component path nm"
    and "Suc (length nm) \<le> heap_free w"
  shows "\<exists>w'. setprogname L s w = Returns () w' \<and> pname w' \<noteq> Null \<and>
              load_string (blocks w') (pname w') = Some nm \<and> sname w' = sname w \<and>
              trace w' = trace w"
proof -
  from component_pointer [OF assms(1,2)] obtain r where
    r: "strrchr s CHR ''/'' w = Returns r w"
    and c: "load_string (blocks w) (if r = Null then s else ptr_add r 1) = Some nm"
    by blast
  from load_string_NUL_free [OF c] have "NUL \<notin> set nm" .
  then show ?thesis
    by (simp add: setprogname_def r estrdup_ok [OF c assms(3)] cstring_of_terminated Let_def)
qed

lemma setsrcname_dies:
  assumes "load_string (blocks w) s = Some path" and "is_final_component path nm"
    and "\<not> Suc (length nm) \<le> heap_free w"
    and "name_at w (pname w) pn" and "name_at w (sname w) sn"
  shows \<open>setsrcname L s w =
           Exits 2 ((after_isatty L (w\<lparr>errno := ENOMEM\<rparr>))\<lparr>trace := trace w @
                        diag_events L pn sn None (Some (error_tag L))
                          ''estrdup("%.20s") failed:'' [FStr nm]
                          (errno (after_isatty L (w\<lparr>errno := ENOMEM\<rparr>)))\<rparr>)\<close>
proof -
  from component_pointer [OF assms(1,2)] obtain r where
    r: "strrchr s CHR ''/'' w = Returns r w"
    and c: "load_string (blocks w) (if r = Null then s else ptr_add r 1) = Some nm"
    by blast
  show ?thesis
    by (simp add: setsrcname_def r estrdup_dies [OF c assms(3,4,5)] Let_def)
qed

lemma setprogname_dies:
  assumes "load_string (blocks w) s = Some path" and "is_final_component path nm"
    and "\<not> Suc (length nm) \<le> heap_free w"
    and "name_at w (pname w) pn" and "name_at w (sname w) sn"
  shows \<open>setprogname L s w =
           Exits 2 ((after_isatty L (w\<lparr>errno := ENOMEM\<rparr>))\<lparr>trace := trace w @
                        diag_events L pn sn None (Some (error_tag L))
                          ''estrdup("%.20s") failed:'' [FStr nm]
                          (errno (after_isatty L (w\<lparr>errno := ENOMEM\<rparr>)))\<rparr>)\<close>
proof -
  from component_pointer [OF assms(1,2)] obtain r where
    r: "strrchr s CHR ''/'' w = Returns r w"
    and c: "load_string (blocks w) (if r = Null then s else ptr_add r 1) = Some nm"
    by blast
  show ?thesis
    by (simp add: setprogname_def r estrdup_dies [OF c assms(3,4,5)] Let_def)
qed

lemma sample_names:
  "name_at sample_world (pname sample_world) (Some ''cc'')"
  "name_at sample_world (sname sample_world) (Some ''t.src'')"
  by (simp_all add: sample_world_def)

section \<open>Reporting paths\<close>

lemma eprintf_never_returns: "eprintf L fmt args w \<noteq> Returns v w'"
  by (cases "uweprintf L (Some (if isatty_stderr L then ASCII_BOLD_RED @ ''Error:'' @ ASCII_RESET
        else ''Error:'')) None fmt args (after_isatty L w)")
     (simp_all add: eprintf_def isatty_eq exit_process_def Let_def)

lemma leprintf_never_returns: "leprintf L fmt args w \<noteq> Returns v w'"
  by (cases "uweprintf L (Some (if isatty_stderr L then ASCII_BOLD_RED @ ''Error:'' @ ASCII_RESET
        else ''Error:'')) (Some (position w)) fmt args (after_isatty L w)")
     (simp_all add: leprintf_def isatty_eq exit_process_def Let_def)

lemma teprintf_never_returns: "teprintf L tag fmt args w \<noteq> Returns v w'"
  by (cases "uweprintf L tag (Some (position w)) fmt args w")
     (simp_all add: teprintf_def exit_process_def)

text \<open>
  C3. With the program and source names in order, \<^verbatim>\<open>eprintf\<close> and \<^verbatim>\<open>leprintf\<close> end the
  process with exit status 2 and \<^verbatim>\<open>teprintf\<close> ends it with exit status 3, whatever the
  format, the arguments and the tag; none of the three returns to its caller.
\<close>

theorem fatal_paths_exit_status:
  assumes "name_at w (pname w) pn" and "name_at w (sname w) sn"
  shows "(\<exists>w'. (eprintf L fmt args w :: unit outcome) = Exits 2 w') \<and>
         (\<exists>w'. (leprintf L fmt args w :: unit outcome) = Exits 2 w') \<and>
         (\<exists>w'. (teprintf L tag fmt args w :: unit outcome) = Exits 3 w') \<and>
         (\<forall>v w'. eprintf L fmt args w \<noteq> Returns (v :: unit) w') \<and>
         (\<forall>v w'. leprintf L fmt args w \<noteq> Returns (v :: unit) w') \<and>
         (\<forall>v w'. teprintf L tag fmt args w \<noteq> Returns (v :: unit) w')"
  by (simp add: eprintf_exits [OF assms] leprintf_exits [OF assms] teprintf_exits [OF assms])

theorem fatal_paths_exit_status_witness:
  "name_at sample_world (pname sample_world) (Some ''cc'') \<and>
   name_at sample_world (sname sample_world) (Some ''t.src'') \<and>
   (\<exists>w'. (eprintf tty_libc ''open failed:'' [] sample_world :: unit outcome) = Exits 2 w') \<and>
   (\<exists>w'. (leprintf tty_libc ''open failed:'' [] sample_world :: unit outcome) = Exits 2 w') \<and>
   (\<exists>w'. (teprintf tty_libc (Some ''Note:'') ''open failed:'' [] sample_world :: unit outcome) =
      Exits 3 w')"
  using fatal_paths_exit_status [OF sample_names, of tty_libc "''open failed:''" "[]" "Some ''Note:''"]
    sample_names
  by simp

text \<open>
  C4. With the program and source names in order, \<^verbatim>\<open>weprintf\<close> returns to its caller.
  The process goes on in the state that \<^verbatim>\<open>isatty(2)\<close> left (off a terminal \<^verbatim>\<open>errno\<close> is then
  \<^verbatim>\<open>ENOTTY\<close>; nothing else has changed), with the trace grown by the warning, whose last
  write is the newline.
\<close>

theorem weprintf_returns_control:
  assumes "name_at w (pname w) pn" and "name_at w (sname w) sn"
  shows "\<exists>es. weprintf L fmt args w =
                 Returns ()
                   ((snd (isatty L w))\<lparr>trace := trace w @ es @ [Write_stderr [CHR 0x0A]]\<rparr>) \<and>
              Write_stderr
                ('' '' @ (if isatty_stderr L then ASCII_BOLD_YELLOW @ ''Warning:'' @ ASCII_RESET
                          else ''Warning:'') @ '' '') \<in> set es \<and>
              Write_stderr (vformat L fmt args) \<in> set es"
  by (rule exI [of _ "butlast (diag_events L pn sn None (Some (warning_tag L)) fmt args
        (errno (after_isatty L w)))"])
     (simp add: weprintf_returns [OF assms] diag_events_def warning_tag_def colour_on_def
        butlast_append after_isatty_def)

theorem weprintf_returns_control_witness:
  "name_at sample_world (pname sample_world) (Some ''cc'') \<and>
   name_at sample_world (sname sample_world) (Some ''t.src'') \<and>
   (\<exists>es. weprintf file_libc ''odd input'' [] sample_world =
            Returns ()
              (sample_world\<lparr>errno := ENOTTY,
                 trace := trace sample_world @ es @ [Write_stderr [CHR 0x0A]]\<rparr>) \<and>
         Write_stderr '' Warning: '' \<in> set es \<and> Write_stderr ''odd input'' \<in> set es)"
proof -
  have i: "snd (isatty file_libc sample_world) = sample_world\<lparr>errno := ENOTTY\<rparr>"
    "isatty_stderr file_libc = False" "vformat file_libc ''odd input'' [] = ''odd input''"
    by (simp_all add: isatty_def file_libc_def)
  from weprintf_returns_control [OF sample_names, of file_libc "''odd input''" "[]"] sample_names
  show ?thesis
    unfolding i by simp
qed

lemma stderr_text_append: "stderr_text (xs @ ys) = stderr_text xs @ stderr_text ys"
  by (induction xs rule: stderr_text.induct) simp_all

lemma stderr_text_diag_events:
  "stderr_text (diag_events L pn sn pos pre fmt args e) =
     diag_prefix L pn sn pos pre @ vformat L fmt args @
     (if fmt \<noteq> [] \<and> last fmt = CHR '':'' then '' '' @ strerror L e else []) @ [CHR 0x0A]"
  by (cases pn; cases sn; cases pos; cases pre) (simp_all add: diag_events_def diag_prefix_def)

lemma emitted_Exits [simp]: "emitted w (Exits st (w1\<lparr>trace := trace w @ es\<rparr>)) = es"
  by (simp add: emitted_def)

lemma emitted_Returns [simp]: "emitted w (Returns v (w1\<lparr>trace := trace w @ es\<rparr>)) = es"
  by (simp add: emitted_def)

text \<open>
  C5. With the program and source names in order, one call of the shared routine
  \<^verbatim>\<open>_weprintf\<close> returns, and what it does after asking \<^verbatim>\<open>isatty(2)\<close> is, in this order:
  flush stdout; write the program name and a colon, if that name is set; write a space,
  the source name and a colon, if that name is set; write line, colon, column and a colon,
  if a position was given; write the tag between two spaces, or one space without a tag;
  write the formatted message; write a space and the text of \<^verbatim>\<open>errno\<close> (as it stands after
  \<^verbatim>\<open>isatty\<close>), if the format ends in a colon; write a newline. On a terminal the source name
  and the position carry their colour sequences.
\<close>

theorem uweprintf_output_order:
  assumes "name_at w (pname w) pn" and "name_at w (sname w) sn"
  shows "uweprintf L pre pos fmt args w =
           Returns ()
             ((snd (isatty L w))\<lparr>trace := trace w @
                [Flush_stdout] @
                (case pn of None \<Rightarrow> [] | Some p \<Rightarrow> [Write_stderr (p @ '':'')]) @
                (case sn of
                   None \<Rightarrow> []
                 | Some s \<Rightarrow>
                     [Write_stderr ('' '' @ colour_on L ASCII_BOLD_WHITE @ s @ '':'' @
                        colour_on L ASCII_RESET)]) @
                (case pos of
                   None \<Rightarrow> []
                 | Some p \<Rightarrow>
                     [Write_stderr (colour_on L ASCII_BOLD_WHITE @ dec_int (line p) @ '':'' @
                        dec_int (col p) @ colour_on L ASCII_RESET @ '':'')]) @
                [Write_stderr (case pre of None \<Rightarrow> '' '' | Some t \<Rightarrow> '' '' @ t @ '' '')] @
                [Write_stderr (vformat L fmt args)] @
                (if fmt \<noteq> [] \<and> last fmt = CHR '':''
                 then [Write_stderr ('' '' @ strerror L (errno (snd (isatty L w))))] else []) @
                [Write_stderr [CHR 0x0A]]\<rparr>)"
  using uweprintf_trace [OF assms, of L pre pos fmt args]
  by (simp add: diag_events_def after_isatty_def)

theorem uweprintf_output_order_witness:
  "name_at sample_world (pname sample_world) (Some ''cc'') \<and>
   name_at sample_world (sname sample_world) (Some ''t.src'') \<and>
   uweprintf file_libc (Some ''Error:'') (Some \<lparr>line = 3, col = 7\<rparr>) ''open failed:'' []
     sample_world =
   Returns ()
     (sample_world\<lparr>errno := ENOTTY, trace :=
        [Flush_stdout, Write_stderr ''cc:'', Write_stderr '' t.src:'', Write_stderr ''3:7:'',
         Write_stderr '' Error: '', Write_stderr ''open failed:'',
         Write_stderr '' Inappropriate ioctl for device'', Write_stderr [CHR 0x0A]]\<rparr>)"
proof -
  have i: "snd (isatty file_libc sample_world) = sample_world\<lparr>errno := ENOTTY\<rparr>"
    by (simp add: isatty_def file_libc_def)
  have e: "trace sample_world = []" "strerror file_libc ENOTTY = ''Inappropriate ioctl for device''"
    "vformat file_libc ''open failed:'' [] = ''open failed:''"
    "colour_on file_libc c = []" for c
    by (simp_all add: sample_world_def file_libc_def sample_strerror_def ENOTTY_def colour_on_def)
  from uweprintf_output_order [OF sample_names, of file_libc "Some ''Error:''"
      "Some \<lparr>line = 3, col = 7\<rparr>" "''open failed:''" "[]"] sample_names
  show ?thesis
    unfolding i by (simp add: e dec_int_def dec_nat.simps)
qed

text \<open>What \<^verbatim>\<open>_weprintf\<close> appends for the colon rule: the text of \<^verbatim>\<open>errno\<close> as it stands after
  the call of \<^verbatim>\<open>isatty\<close>, which on a terminal is the \<^verbatim>\<open>errno\<close> the routine was entered with.\<close>

lemma uweprintf_suffix:
  assumes "name_at w (pname w) pn" and "name_at w (sname w) sn"
  shows "\<exists>w'. uweprintf L pre pos fmt args w = Returns () w' \<and>
           stderr_text (trace w') =
             stderr_text (trace w) @ diag_prefix L pn sn pos pre @ vformat L fmt args @
             (if fmt \<noteq> [] \<and> last fmt = CHR '':''
              then '' '' @ strerror L (if isatty_stderr L then errno w else ENOTTY) else []) @
             [CHR 0x0A]"
  by (simp add: uweprintf_trace [OF assms] stderr_text_append stderr_text_diag_events
      errno_after_isatty)

text \<open>
  C2, off a terminal. The sample state is entered with \<^verbatim>\<open>errno\<close> 2, whose text is
  \<^verbatim>\<open>No such file or directory\<close>, and the diagnostic stream is not a terminal. For the format
  \<^verbatim>\<open>open failed:\<close> both \<^verbatim>\<open>_weprintf\<close> and \<^verbatim>\<open>eprintf\<close> write a line that ends with the text of
  \<^verbatim>\<open>ENOTTY\<close>, which \<^verbatim>\<open>isatty(2)\<close> has stored in \<^verbatim>\<open>errno\<close> before \<^verbatim>\<open>strerror(errno)\<close> is
  evaluated: the error code that was active at the call is lost.
\<close>

theorem errno_text_lost_off_terminal:
  "\<not> isatty_stderr file_libc \<and>
   errno sample_world = 2 \<and>
   strerror file_libc 2 = ''No such file or directory'' \<and>
   stderr_text (emitted sample_world
      (uweprintf file_libc (Some ''Error:'') None ''open failed:'' [] sample_world)) =
     ''cc: t.src: Error: open failed: Inappropriate ioctl for device'' @ [CHR 0x0A] \<and>
   stderr_text (emitted sample_world
      (eprintf file_libc ''open failed:'' [] sample_world :: unit outcome)) =
     ''cc: t.src: Error: open failed: Inappropriate ioctl for device'' @ [CHR 0x0A]"
proof -
  have e: "\<not> isatty_stderr file_libc" "errno sample_world = 2"
    "strerror file_libc 2 = ''No such file or directory''"
    "strerror file_libc ENOTTY = ''Inappropriate ioctl for device''"
    "vformat file_libc ''open failed:'' [] = ''open failed:''"
    by (simp_all add: sample_world_def file_libc_def sample_strerror_def ENOTTY_def)
  have p: "diag_prefix file_libc (Some ''cc'') (Some ''t.src'') None (Some t) =
      ''cc: t.src: '' @ t @ '' ''" for t
    by (simp add: diag_prefix_def colour_on_def e)
  have g: "error_tag file_libc = ''Error:''"
    by (simp add: error_tag_def colour_on_def e)
  have "stderr_text (emitted sample_world
      (uweprintf file_libc (Some ''Error:'') None ''open failed:'' [] sample_world)) =
     ''cc: t.src: Error: open failed: Inappropriate ioctl for device'' @ [CHR 0x0A]"
    by (simp add: uweprintf_trace [OF sample_names] stderr_text_diag_events errno_after_isatty
        e p)
  moreover have "stderr_text (emitted sample_world
      (eprintf file_libc ''open failed:'' [] sample_world :: unit outcome)) =
     ''cc: t.src: Error: open failed: Inappropriate ioctl for device'' @ [CHR 0x0A]"
    by (simp add: eprintf_exits [OF sample_names] stderr_text_diag_events errno_after_isatty
        e p g)
  ultimately show ?thesis
    using e by simp
qed

section \<open>Duplication and the naming state\<close>

lemma store_bytes_other_block:
  assumes "store_bytes h q cs = Some h'" and "ptr_block q \<noteq> ptr_block p"
  shows "load_string h' p = load_string h p"
proof (cases q)
  case Null
  with assms(1) show ?thesis by simp
next
  case (Ptr b off)
  with assms(1) obtain new where "h' = (b, new) # h"
    by (auto split: option.splits if_splits)
  moreover have "ptr_block p \<noteq> Some b"
    using assms(2) Ptr by simp
  ultimately show ?thesis
    by (simp add: load_string_other_block)
qed

text \<open>
  C7. When \<open>s\<close> refers to a string and the allocation of its length plus one succeeds,
  \<^verbatim>\<open>estrdup(s)\<close> returns a pointer to the start of a block that did not exist before, so
  it is not the block of \<open>s\<close>; the new block holds the same string and the string at \<open>s\<close>
  is unchanged. The two are independent: after any write into the new block, \<open>s\<close> still
  refers to the string, and after any write into the block of \<open>s\<close>, the copy still does.
\<close>

theorem estrdup_independent_copy:
  assumes "load_string (blocks w) s = Some str"
    and "fst (malloc (Suc (length str)) w) \<noteq> Null"
  shows "\<exists>b w'. estrdup L s w = Returns (Ptr b 0) w' \<and>
           map_of (blocks w) b = None \<and>
           ptr_block s \<noteq> Some b \<and>
           load_string (blocks w') (Ptr b 0) = Some str \<and>
           load_string (blocks w') s = Some str \<and>
           (\<forall>q cs h. store_bytes (blocks w') q cs = Some h \<and> ptr_block q = Some b \<longrightarrow>
              load_string h s = Some str) \<and>
           (\<forall>q cs h. store_bytes (blocks w') q cs = Some h \<and> ptr_block q = ptr_block s \<longrightarrow>
              load_string h (Ptr b 0) = Some str)"
proof -
  let ?b = "fresh_block (blocks w)"
  let ?h = "(?b, map Some str @ [Some NUL]) # (?b, replicate (Suc (length str)) None) # blocks w"
  let ?w' = "w\<lparr>blocks := ?h, heap_free := heap_free w - Suc (length str)\<rparr>"
  from assms(2) have room: "Suc (length str) \<le> heap_free w"
    by (simp add: malloc_Null)
  have new: "map_of (blocks w) ?b = None"
    by (rule fresh_block_unused)
  from load_string_block [OF assms(1)] obtain b' off cs where
    s: "s = Ptr b' off" "map_of (blocks w) b' = Some cs"
    by blast
  with new have other: "ptr_block s \<noteq> Some ?b"
    by auto
  have nul: "NUL \<notin> set str"
    by (rule load_string_NUL_free [OF assms(1)])
  have copy: "load_string ?h (Ptr ?b 0) = Some str"
    using nul by (simp add: cstring_of_terminated)
  have source: "load_string ?h s = Some str"
    using other assms(1) by (simp add: load_string_other_block)
  have "load_string h s = Some str"
    if "store_bytes ?h q cs = Some h \<and> ptr_block q = Some ?b" for q cs h
    using that other store_bytes_other_block [of ?h q cs h s] source by auto
  moreover have "load_string h (Ptr ?b 0) = Some str"
    if "store_bytes ?h q cs = Some h \<and> ptr_block q = ptr_block s" for q cs h
    using that other store_bytes_other_block [of ?h q cs h "Ptr ?b 0"] copy by auto
  ultimately show ?thesis
    using estrdup_ok [OF assms(1) room, of L] new other copy source
    by (intro exI [of _ ?b] exI [of _ ?w']) simp
qed

theorem estrdup_independent_copy_witness:
  "load_string (blocks sample_world) (Ptr 3 0) = Some ''/a/b/c.src'' \<and>
   fst (malloc (Suc (length ''/a/b/c.src'')) sample_world) \<noteq> Null \<and>
   (\<exists>b w'. estrdup file_libc (Ptr 3 0) sample_world = Returns (Ptr b 0) w' \<and>
      map_of (blocks sample_world) b = None \<and>
      ptr_block (Ptr 3 0) \<noteq> Some b \<and>
      load_string (blocks w') (Ptr b 0) = Some ''/a/b/c.src'' \<and>
      load_string (blocks w') (Ptr 3 0) = Some ''/a/b/c.src'' \<and>
      (\<forall>q cs h. store_bytes (blocks w') q cs = Some h \<and> ptr_block q = Some b \<longrightarrow>
         load_string h (Ptr 3 0) = Some ''/a/b/c.src'') \<and>
      (\<forall>q cs h. store_bytes (blocks w') q cs = Some h \<and> ptr_block q = ptr_block (Ptr 3 0) \<longrightarrow>
         load_string h (Ptr b 0) = Some ''/a/b/c.src''))"
proof -
  have h1: "load_string (blocks sample_world) (Ptr 3 0) = Some ''/a/b/c.src''"
    by (simp add: sample_world_def)
  have h2: "fst (malloc (Suc (length ''/a/b/c.src'')) sample_world) \<noteq> Null"
    by (simp add: malloc_Null sample_world_def)
  from estrdup_independent_copy [OF h1 h2, of file_libc] h1 h2 show ?thesis
    by (intro conjI)
qed

text \<open>
  C6. When \<open>p\<close> refers to a path, \<open>nm\<close> is its final component (what follows the last
  \<^verbatim>\<open>'/'\<close>, or the whole path when it has no separator) and the allocation of the copy
  succeeds, \<^verbatim>\<open>setsrcname(p)\<close> returns, and afterwards \<^verbatim>\<open>getsrcname()\<close> is a pointer to exactly
  the string \<open>nm\<close>.
\<close>

theorem setsrcname_final_component:
  assumes "load_string (blocks w) p = Some path"
    and "is_final_component path nm"
    and "fst (malloc (Suc (length nm)) w) \<noteq> Null"
  shows "\<exists>w'. setsrcname L p w = Returns () w' \<and>
              getsrcname w' \<noteq> Null \<and>
              load_string (blocks w') (getsrcname w') = Some nm"
proof -
  from assms(3) have "Suc (length nm) \<le> heap_free w"
    by (simp add: malloc_Null)
  from setsrcname_ok [OF assms(1,2) this, of L] show ?thesis
    by (auto simp: getsrcname_def)
qed

theorem setsrcname_final_component_witness:
  "load_string (blocks sample_world) (Ptr 3 0) = Some ''/a/b/c.src'' \<and>
   is_final_component ''/a/b/c.src'' ''c.src'' \<and>
   fst (malloc (Suc (length ''c.src'')) sample_world) \<noteq> Null \<and>
   (\<exists>w'. setsrcname file_libc (Ptr 3 0) sample_world = Returns () w' \<and>
      getsrcname w' \<noteq> Null \<and>
      load_string (blocks w') (getsrcname w') = Some ''c.src'') \<and>
   load_string (blocks sample_world) (Ptr 2 0) = Some ''t.src'' \<and>
   is_final_component ''t.src'' ''t.src'' \<and>
   fst (malloc (Suc (length ''t.src'')) sample_world) \<noteq> Null \<and>
   (\<exists>w'. setsrcname file_libc (Ptr 2 0) sample_world = Returns () w' \<and>
      getsrcname w' \<noteq> Null \<and>
      load_string (blocks w') (getsrcname w') = Some ''t.src'')"
proof -
  have a1: "load_string (blocks sample_world) (Ptr 3 0) = Some ''/a/b/c.src''"
    and b1: "load_string (blocks sample_world) (Ptr 2 0) = Some ''t.src''"
    by (simp_all add: sample_world_def)
  have a2: "is_final_component ''/a/b/c.src'' ''c.src''"
    unfolding is_final_component_def
    by (intro conjI disjI2 exI [of _ "''/a/b''"]) simp_all
  have b2: "is_final_component ''t.src'' ''t.src''"
    by (simp add: is_final_component_def)
  have a3: "fst (malloc (Suc (length ''c.src'')) sample_world) \<noteq> Null"
    and b3: "fst (malloc (Suc (length ''t.src'')) sample_world) \<noteq> Null"
    by (simp_all add: malloc_Null sample_world_def)
  from setsrcname_final_component [OF a1 a2 a3, of file_libc]
    setsrcname_final_component [OF b1 b2 b3, of file_libc] a1 a2 a3 b1 b2 b3
  show ?thesis
    by (intro conjI)
qed

text \<open>
  C10. When \<open>p\<close> refers to a path whose last character is \<^verbatim>\<open>'/'\<close> and the allocation of
  one byte succeeds, \<^verbatim>\<open>setsrcname(p)\<close> returns and \<^verbatim>\<open>getsrcname()\<close> is then a pointer,
  not \<^verbatim>\<open>NULL\<close>, to the empty string; \<^verbatim>\<open>setprogname\<close> and \<^verbatim>\<open>getprogname\<close> do the same.
\<close>

theorem trailing_separator_gives_empty_name:
  assumes "load_string (blocks w) p = Some (d @ ''/'')"
    and "fst (malloc 1 w) \<noteq> Null"
  shows "(\<exists>w'. setsrcname L p w = Returns () w' \<and>
               getsrcname w' \<noteq> Null \<and>
               load_string (blocks w') (getsrcname w') = Some []) \<and>
         (\<exists>w'. setprogname L p w = Returns () w' \<and>
               getprogname w' \<noteq> Null \<and>
               load_string (blocks w') (getprogname w') = Some [])"
proof -
  have fin: "is_final_component (d @ ''/'') []"
    by (simp add: is_final_component_def)
  from assms(2) have room: "Suc (length ([] :: string)) \<le> heap_free w"
    by (simp add: malloc_Null)
  from setsrcname_ok [OF assms(1) fin room, of L] setprogname_ok [OF assms(1) fin room, of L]
  show ?thesis
    by (auto simp: getsrcname_def getprogname_def)
qed

theorem trailing_separator_gives_empty_name_witness:
  "load_string (blocks sample_world) (Ptr 4 0) = Some (''src'' @ ''/'') \<and>
   fst (malloc 1 sample_world) \<noteq> Null \<and>
   (\<exists>w'. setsrcname file_libc (Ptr 4 0) sample_world = Returns () w' \<and>
      getsrcname w' \<noteq> Null \<and>
      load_string (blocks w') (getsrcname w') = Some []) \<and>
   (\<exists>w'. setprogname file_libc (Ptr 4 0) sample_world = Returns () w' \<and>
      getprogname w' \<noteq> Null \<and>
      load_string (blocks w') (getprogname w') = Some [])"
proof -
  have h1: "load_string (blocks sample_world) (Ptr 4 0) = Some (''src'' @ ''/'')"
    by (simp add: sample_world_def)
  have h2: "fst (malloc 1 sample_world) \<noteq> Null"
    by (simp add: malloc_Null sample_world_def)
  from trailing_separator_gives_empty_name [OF h1 h2, of file_libc] h1 h2 show ?thesis
    by blast
qed


text \<open>
  C9. \<^verbatim>\<open>setsrcname\<close> and \<^verbatim>\<open>setprogname\<close> duplicate the final component \<open>nm\<close> of the path
  with \<^verbatim>\<open>estrdup\<close>. When that allocation fails (and the program and source names are in
  order, so that the diagnostic can be written), neither setter returns: each writes one
  line, which ends with the \<^verbatim>\<open>Error:\<close> tag, the message of \<^verbatim>\<open>estrdup\<close> and the text of
  \<^verbatim>\<open>errno\<close>, and ends the process with exit status 2. The names are left as they were.
  The \<^verbatim>\<open>errno\<close> whose text is printed is \<^verbatim>\<open>ENOMEM\<close> on a terminal and \<^verbatim>\<open>ENOTTY\<close> off it, where
  \<^verbatim>\<open>isatty\<close> has replaced the one \<^verbatim>\<open>malloc\<close> set.
\<close>

theorem setters_exit_when_duplication_fails:
  assumes "load_string (blocks w) p = Some path"
    and "is_final_component path nm"
    and "fst (malloc (Suc (length nm)) w) = Null"
    and "name_at w (pname w) pn" and "name_at w (sname w) sn"
  shows \<open>\<exists>w' pfx.
           setsrcname L p w = Exits 2 w' \<and> setprogname L p w = Exits 2 w' \<and>
           sname w' = sname w \<and> pname w' = pname w \<and>
           errno w' = (if isatty_stderr L then ENOMEM else ENOTTY) \<and>
           stderr_text (trace w') =
             stderr_text (trace w) @ pfx @
             (if isatty_stderr L then ASCII_BOLD_RED @ ''Error:'' @ ASCII_RESET else ''Error:'') @
             '' '' @ vformat L ''estrdup("%.20s") failed:'' [FStr nm] @
             '' '' @ strerror L (errno w') @ [CHR 0x0A]\<close>
proof -
  let ?fmt = \<open>''estrdup("%.20s") failed:''\<close>
  let ?w0 = "after_isatty L (w\<lparr>errno := ENOMEM\<rparr>)"
  let ?w' = "?w0\<lparr>trace := trace w @
                 diag_events L pn sn None (Some (error_tag L)) ?fmt [FStr nm] (errno ?w0)\<rparr>"
  let ?pfx = "diag_prefix L pn sn None None"
  from assms(3) have full: "\<not> Suc (length nm) \<le> heap_free w"
    by (simp add: malloc_Null)
  have "setsrcname L p w = Exits 2 ?w'"
    by (rule setsrcname_dies [OF assms(1,2) full assms(4,5)])
  moreover have "setprogname L p w = Exits 2 ?w'"
    by (rule setprogname_dies [OF assms(1,2) full assms(4,5)])
  moreover have "errno ?w' = (if isatty_stderr L then ENOMEM else ENOTTY)"
    by (simp add: errno_after_isatty)
  moreover have "stderr_text (trace ?w') =
      stderr_text (trace w) @ ?pfx @
      (if isatty_stderr L then ASCII_BOLD_RED @ ''Error:'' @ ASCII_RESET else ''Error:'') @
      '' '' @ vformat L ?fmt [FStr nm] @ '' '' @ strerror L (errno ?w') @ [CHR 0x0A]"
    by (simp add: stderr_text_append stderr_text_diag_events diag_prefix_def error_tag_def
        colour_on_def)
  ultimately show ?thesis
    by (intro exI [of _ ?w'] exI [of _ ?pfx]) simp
qed

theorem setters_exit_when_duplication_fails_witness:
  \<open>load_string (blocks full_world) (Ptr 3 0) = Some ''/a/b/c.src'' \<and>
   is_final_component ''/a/b/c.src'' ''c.src'' \<and>
   fst (malloc (Suc (length ''c.src'')) full_world) = Null \<and>
   name_at full_world (pname full_world) (Some ''cc'') \<and>
   name_at full_world (sname full_world) (Some ''t.src'') \<and>
   (\<exists>w' pfx.
      setsrcname file_libc (Ptr 3 0) full_world = Exits 2 w' \<and>
      setprogname file_libc (Ptr 3 0) full_world = Exits 2 w' \<and>
      sname w' = sname full_world \<and> pname w' = pname full_world \<and>
      errno w' = (if isatty_stderr file_libc then ENOMEM else ENOTTY) \<and>
      stderr_text (trace w') =
        stderr_text (trace full_world) @ pfx @
        (if isatty_stderr file_libc then ASCII_BOLD_RED @ ''Error:'' @ ASCII_RESET
         else ''Error:'') @
        '' '' @ vformat file_libc ''estrdup("%.20s") failed:'' [FStr ''c.src''] @
        '' '' @ strerror file_libc (errno w') @ [CHR 0x0A]) \<and>
   vformat file_libc ''estrdup("%.20s") failed:'' [FStr ''c.src''] =
     ''estrdup("c.src") failed:'' \<and>
   isatty_stderr file_libc = False \<and>
   strerror file_libc ENOTTY = ''Inappropriate ioctl for device''\<close>
proof -
  have h1: "load_string (blocks full_world) (Ptr 3 0) = Some ''/a/b/c.src''"
    by (simp add: full_world_def sample_world_def)
  have h2: "is_final_component ''/a/b/c.src'' ''c.src''"
    unfolding is_final_component_def
    by (intro conjI disjI2 exI [of _ "''/a/b''"]) simp_all
  have h3: "fst (malloc (Suc (length ''c.src'')) full_world) = Null"
    by (simp add: malloc_Null full_world_def)
  have h4: "name_at full_world (pname full_world) (Some ''cc'')"
    and h5: "name_at full_world (sname full_world) (Some ''t.src'')"
    by (simp_all add: full_world_def sample_world_def)
  have v: \<open>vformat file_libc ''estrdup("%.20s") failed:'' [FStr ''c.src''] =
      ''estrdup("c.src") failed:''\<close>
    "isatty_stderr file_libc = False"
    "strerror file_libc ENOTTY = ''Inappropriate ioctl for device''"
    by (simp_all add: file_libc_def sample_strerror_def ENOTTY_def)
  from setters_exit_when_duplication_fails [OF h1 h2 h3 h4 h5, of file_libc] h1 h2 h3 h4 h5 v
  show ?thesis
    by (intro conjI)
qed

text \<open>
  C1, the duplicator of the Warn family at a failed allocation. In the state with no
  memory left, \<^verbatim>\<open>westrdup\<close> of the string \<^verbatim>\<open>/a/b/c.src\<close> writes its warning and then copies
  through the null pointer that \<^verbatim>\<open>malloc\<close> gave it: the call ends in undefined behaviour
  and does not return \<^verbatim>\<open>NULL\<close>. (The stream is not a terminal here, so the warning carries
  the text of \<^verbatim>\<open>ENOTTY\<close>.)
\<close>

theorem westrdup_copies_through_null:
  \<open>westrdup file_libc (Ptr 3 0) full_world =
     Faults (full_world\<lparr>errno := ENOTTY,
        trace := [Flush_stdout, Write_stderr ''cc:'', Write_stderr '' t.src:'',
          Write_stderr '' Warning: '', Write_stderr ''estrdup("/a/b/c.src") failed:'',
          Write_stderr '' Inappropriate ioctl for device'', Write_stderr [CHR 0x0A]]\<rparr>)\<close>
proof -
  have h1: "load_string (blocks full_world) (Ptr 3 0) = Some ''/a/b/c.src''"
    by (simp add: full_world_def sample_world_def)
  have h2: "\<not> Suc (length ''/a/b/c.src'') \<le> heap_free full_world"
    by (simp add: full_world_def)
  have h3: "name_at full_world (pname full_world) (Some ''cc'')"
    and h4: "name_at full_world (sname full_world) (Some ''t.src'')"
    by (simp_all add: full_world_def sample_world_def)
  have t: "trace full_world = []"
    by (simp add: full_world_def sample_world_def)
  have i: "after_isatty file_libc (full_world\<lparr>errno := ENOMEM\<rparr>) = full_world\<lparr>errno := ENOTTY\<rparr>"
    by (simp add: after_isatty_def isatty_def file_libc_def)
  show ?thesis
    by (simp add: westrdup_faults [OF h1 h2 h3 h4] i t)
       (simp add: diag_events_def warning_tag_def colour_on_def file_libc_def
          sample_strerror_def ENOTTY_def)
qed

section \<open>Colour policy\<close>

lemma esc_free_append [simp]: "esc_free (a @ b) \<longleftrightarrow> esc_free a \<and> esc_free b"
  by (auto simp: esc_free_def)

lemma esc_free_digit: "k < 10 \<Longrightarrow> esc_free [''0123456789'' ! k]"
proof -
  assume "k < 10"
  then have "''0123456789'' ! k \<in> set ''0123456789''"
    by (intro nth_mem) simp
  then show ?thesis
    by (auto simp: esc_free_def)
qed

lemma esc_free_dec_nat: "esc_free (dec_nat n)"
proof (induction n rule: dec_nat.induct)
  case (1 n)
  show ?case
  proof (cases "n < 10")
    case True
    then show ?thesis
      by (subst dec_nat.simps) (simp add: esc_free_digit)
  next
    case False
    have "n mod 10 < 10" by simp
    with False "1.IH" show ?thesis
      by (subst dec_nat.simps) (simp add: esc_free_digit)
  qed
qed

lemma esc_free_dec_int: "esc_free (dec_int i)"
  using esc_free_dec_nat [of "nat (- i)"] esc_free_dec_nat [of "nat i"]
  by (simp add: dec_int_def esc_free_def)

lemma esc_free_plain_prefix:
  assumes "\<not> isatty_stderr L"
    and "\<forall>s \<in> set_option pn. esc_free s" and "\<forall>s \<in> set_option sn. esc_free s"
    and "\<forall>s \<in> set_option pre. esc_free s"
  shows "esc_free (diag_prefix L pn sn pos pre)"
  using assms esc_free_dec_int
  by (cases pn; cases sn; cases pos; cases pre)
     (simp_all add: diag_prefix_def colour_on_def, simp_all add: esc_free_def)

lemma esc_free_plain_diagnostic:
  assumes "\<not> isatty_stderr L" and "esc_free (vformat L fmt args)" and "esc_free (strerror L e)"
    and "\<forall>s \<in> set_option pn. esc_free s" and "\<forall>s \<in> set_option sn. esc_free s"
    and "\<forall>s \<in> set_option pre. esc_free s"
  shows "esc_free (stderr_text (diag_events L pn sn pos pre fmt args e))"
proof -
  have "esc_free (if fmt \<noteq> [] \<and> last fmt = CHR '':'' then '' '' @ strerror L e else [])"
    using assms(3) by (simp add: esc_free_def)
  moreover have "esc_free [CHR 0x0A]"
    by (simp add: esc_free_def)
  ultimately show ?thesis
    using esc_free_plain_prefix [OF assms(1,4,5,6)] assms(2)
    by (simp only: stderr_text_diag_events esc_free_append)
qed

lemma tty_source_piece:
  "isatty_stderr L \<Longrightarrow>
   Write_stderr ('' '' @ ASCII_BOLD_WHITE @ s @ '':'' @ ASCII_RESET)
     \<in> set (diag_events L pn (Some s) pos pre fmt args e)"
  by (simp add: diag_events_def colour_on_def)

lemma tty_position_piece:
  "isatty_stderr L \<Longrightarrow>
   Write_stderr (ASCII_BOLD_WHITE @ dec_int (line p) @ '':'' @ dec_int (col p) @ ASCII_RESET @ '':'')
     \<in> set (diag_events L pn sn (Some p) pre fmt args e)"
  by (simp add: diag_events_def colour_on_def)

lemma tag_piece:
  "Write_stderr (case pre of None \<Rightarrow> '' '' | Some t \<Rightarrow> '' '' @ t @ '' '')
     \<in> set (diag_events L pn sn pos pre fmt args e)"
  by (simp add: diag_events_def)

text \<open>
  C8, as the code has it. When the diagnostic stream is not a terminal the module adds no
  escape sequence: if the names, the tag, the formatted message and the \<^verbatim>\<open>strerror\<close> text
  (of \<^verbatim>\<open>errno\<close> as \<^verbatim>\<open>isatty\<close> leaves it) are free of the escape character, so is everything
  that each of the four routines writes. When the stream is a terminal, every routine writes the source name and its
  colon between the bold-white sequence and the reset sequence, \<^verbatim>\<open>leprintf\<close> and
  \<^verbatim>\<open>teprintf\<close> write the position between the same two, \<^verbatim>\<open>eprintf\<close> and \<^verbatim>\<open>leprintf\<close> write
  \<^verbatim>\<open>Error:\<close> between bold red and reset, and \<^verbatim>\<open>weprintf\<close> writes \<^verbatim>\<open>Warning:\<close> between bold
  yellow and reset; \<^verbatim>\<open>teprintf\<close> writes the tag of its caller as it was given, between two
  spaces, and adds no sequence to it.
\<close>

theorem colour_policy:
  assumes "name_at w (pname w) pn" and "name_at w (sname w) sn"
  shows "(\<not> isatty_stderr L \<and> esc_free (vformat L fmt args) \<and>
          esc_free (strerror L (errno (snd (isatty L w)))) \<and>
          (\<forall>s \<in> set_option pn. esc_free s) \<and> (\<forall>s \<in> set_option sn. esc_free s) \<and>
          (\<forall>s \<in> set_option tag. esc_free s) \<longrightarrow>
            esc_free (stderr_text (emitted w (eprintf L fmt args w :: unit outcome))) \<and>
            esc_free (stderr_text (emitted w (leprintf L fmt args w :: unit outcome))) \<and>
            esc_free (stderr_text (emitted w (weprintf L fmt args w))) \<and>
            esc_free (stderr_text (emitted w (teprintf L tag fmt args w :: unit outcome)))) \<and>
         (isatty_stderr L \<longrightarrow>
            (\<forall>s \<in> set_option sn.
               Write_stderr ('' '' @ ASCII_BOLD_WHITE @ s @ '':'' @ ASCII_RESET)
                 \<in> set (emitted w (eprintf L fmt args w :: unit outcome)) \<inter>
                   set (emitted w (leprintf L fmt args w :: unit outcome)) \<inter>
                   set (emitted w (weprintf L fmt args w)) \<inter>
                   set (emitted w (teprintf L tag fmt args w :: unit outcome))) \<and>
            Write_stderr (ASCII_BOLD_WHITE @ dec_int (line (position w)) @ '':'' @
                dec_int (col (position w)) @ ASCII_RESET @ '':'')
              \<in> set (emitted w (leprintf L fmt args w :: unit outcome)) \<inter>
                set (emitted w (teprintf L tag fmt args w :: unit outcome)) \<and>
            Write_stderr ('' '' @ ASCII_BOLD_RED @ ''Error:'' @ ASCII_RESET @ '' '')
              \<in> set (emitted w (eprintf L fmt args w :: unit outcome)) \<inter>
                set (emitted w (leprintf L fmt args w :: unit outcome)) \<and>
            Write_stderr ('' '' @ ASCII_BOLD_YELLOW @ ''Warning:'' @ ASCII_RESET @ '' '')
              \<in> set (emitted w (weprintf L fmt args w)) \<and>
            Write_stderr (case tag of None \<Rightarrow> '' '' | Some t \<Rightarrow> '' '' @ t @ '' '')
              \<in> set (emitted w (teprintf L tag fmt args w :: unit outcome)))"
proof (intro conjI impI)
  assume "\<not> isatty_stderr L \<and> esc_free (vformat L fmt args) \<and>
    esc_free (strerror L (errno (snd (isatty L w)))) \<and> (\<forall>s \<in> set_option pn. esc_free s) \<and>
    (\<forall>s \<in> set_option sn. esc_free s) \<and> (\<forall>s \<in> set_option tag. esc_free s)"
  then have plain: "\<not> isatty_stderr L \<and> esc_free (vformat L fmt args) \<and>
    esc_free (strerror L (errno (after_isatty L w))) \<and> (\<forall>s \<in> set_option pn. esc_free s) \<and>
    (\<forall>s \<in> set_option sn. esc_free s) \<and> (\<forall>s \<in> set_option tag. esc_free s)"
    by (simp add: after_isatty_def)
  then have e: "\<forall>s \<in> set_option (Some (error_tag L)). esc_free s"
    and y: "\<forall>s \<in> set_option (Some (warning_tag L)). esc_free s"
    by (simp_all add: error_tag_def warning_tag_def colour_on_def esc_free_def)
  from plain
  show "esc_free (stderr_text (emitted w (eprintf L fmt args w :: unit outcome)))"
    by (simp add: eprintf_exits [OF assms] esc_free_plain_diagnostic e)
  from plain
  show "esc_free (stderr_text (emitted w (leprintf L fmt args w :: unit outcome)))"
    by (simp add: leprintf_exits [OF assms] esc_free_plain_diagnostic e)
  from plain show "esc_free (stderr_text (emitted w (weprintf L fmt args w)))"
    by (simp add: weprintf_returns [OF assms] esc_free_plain_diagnostic y)
  from plain
  show "esc_free (stderr_text (emitted w (teprintf L tag fmt args w :: unit outcome)))"
    by (simp add: teprintf_exits [OF assms] esc_free_plain_diagnostic)
next
  assume tty: "isatty_stderr L"
  show "\<forall>s \<in> set_option sn.
      Write_stderr ('' '' @ ASCII_BOLD_WHITE @ s @ '':'' @ ASCII_RESET)
        \<in> set (emitted w (eprintf L fmt args w :: unit outcome)) \<inter>
          set (emitted w (leprintf L fmt args w :: unit outcome)) \<inter>
          set (emitted w (weprintf L fmt args w)) \<inter>
          set (emitted w (teprintf L tag fmt args w :: unit outcome))"
    using tty_source_piece [OF tty]
    by (cases sn)
       (simp_all add: eprintf_exits [OF assms] leprintf_exits [OF assms]
          weprintf_returns [OF assms] teprintf_exits [OF assms])
  show "Write_stderr (ASCII_BOLD_WHITE @ dec_int (line (position w)) @ '':'' @
          dec_int (col (position w)) @ ASCII_RESET @ '':'')
        \<in> set (emitted w (leprintf L fmt args w :: unit outcome)) \<inter>
          set (emitted w (teprintf L tag fmt args w :: unit outcome))"
    using tty_position_piece [OF tty]
    by (simp add: leprintf_exits [OF assms] teprintf_exits [OF assms])
  show "Write_stderr ('' '' @ ASCII_BOLD_RED @ ''Error:'' @ ASCII_RESET @ '' '')
        \<in> set (emitted w (eprintf L fmt args w :: unit outcome)) \<inter>
          set (emitted w (leprintf L fmt args w :: unit outcome))"
    using tag_piece [of "Some (error_tag L)"] tty
    by (simp add: eprintf_exits [OF assms] leprintf_exits [OF assms] error_tag_def colour_on_def)
  show "Write_stderr ('' '' @ ASCII_BOLD_YELLOW @ ''Warning:'' @ ASCII_RESET @ '' '')
        \<in> set (emitted w (weprintf L fmt args w))"
    using tag_piece [of "Some (warning_tag L)"] tty
    by (simp add: weprintf_returns [OF assms] warning_tag_def colour_on_def)
  show "Write_stderr (case tag of None \<Rightarrow> '' '' | Some t \<Rightarrow> '' '' @ t @ '' '')
        \<in> set (emitted w (teprintf L tag fmt args w :: unit outcome))"
    using tag_piece [of tag] by (simp add: teprintf_exits [OF assms])
qed

theorem colour_policy_witness:
  "name_at sample_world (pname sample_world) (Some ''cc'') \<and>
   name_at sample_world (sname sample_world) (Some ''t.src'') \<and>
   \<not> isatty_stderr file_libc \<and>
   esc_free (vformat file_libc ''open failed:'' []) \<and>
   esc_free (strerror file_libc (errno (snd (isatty file_libc sample_world)))) \<and>
   esc_free ''cc'' \<and> esc_free ''t.src'' \<and> esc_free ''Note:'' \<and>
   esc_free (stderr_text (emitted sample_world
     (eprintf file_libc ''open failed:'' [] sample_world :: unit outcome))) \<and>
   esc_free (stderr_text (emitted sample_world
     (leprintf file_libc ''open failed:'' [] sample_world :: unit outcome))) \<and>
   esc_free (stderr_text (emitted sample_world
     (weprintf file_libc ''open failed:'' [] sample_world))) \<and>
   esc_free (stderr_text (emitted sample_world
     (teprintf file_libc (Some ''Note:'') ''open failed:'' [] sample_world :: unit outcome))) \<and>
   isatty_stderr tty_libc \<and>
   Write_stderr ('' '' @ ASCII_BOLD_WHITE @ ''t.src'' @ '':'' @ ASCII_RESET)
     \<in> set (emitted sample_world
           (eprintf tty_libc ''open failed:'' [] sample_world :: unit outcome)) \<inter>
       set (emitted sample_world
           (leprintf tty_libc ''open failed:'' [] sample_world :: unit outcome)) \<inter>
       set (emitted sample_world (weprintf tty_libc ''open failed:'' [] sample_world)) \<inter>
       set (emitted sample_world
           (teprintf tty_libc (Some ''Note:'') ''open failed:'' [] sample_world :: unit outcome)) \<and>
   Write_stderr (ASCII_BOLD_WHITE @ ''3'' @ '':'' @ ''7'' @ ASCII_RESET @ '':'')
     \<in> set (emitted sample_world
           (leprintf tty_libc ''open failed:'' [] sample_world :: unit outcome)) \<inter>
       set (emitted sample_world
           (teprintf tty_libc (Some ''Note:'') ''open failed:'' [] sample_world :: unit outcome)) \<and>
   Write_stderr ('' '' @ ASCII_BOLD_RED @ ''Error:'' @ ASCII_RESET @ '' '')
     \<in> set (emitted sample_world
           (eprintf tty_libc ''open failed:'' [] sample_world :: unit outcome)) \<inter>
       set (emitted sample_world
           (leprintf tty_libc ''open failed:'' [] sample_world :: unit outcome)) \<and>
   Write_stderr ('' '' @ ASCII_BOLD_YELLOW @ ''Warning:'' @ ASCII_RESET @ '' '')
     \<in> set (emitted sample_world (weprintf tty_libc ''open failed:'' [] sample_world)) \<and>
   Write_stderr '' Note: ''
     \<in> set (emitted sample_world
           (teprintf tty_libc (Some ''Note:'') ''open failed:'' [] sample_world :: unit outcome))"
proof -
  have plain: "\<not> isatty_stderr file_libc"
    "esc_free (vformat file_libc ''open failed:'' [])"
    "esc_free (strerror file_libc (errno (snd (isatty file_libc sample_world))))"
    "esc_free ''cc''" "esc_free ''t.src''" "esc_free ''Note:''"
    by (simp_all add: file_libc_def isatty_def ENOTTY_def sample_strerror_def esc_free_def)
  have tty: "isatty_stderr tty_libc"
    by (simp add: tty_libc_def)
  have pos: "dec_int (line (position sample_world)) = ''3''"
    "dec_int (col (position sample_world)) = ''7''"
    by (simp_all add: sample_world_def dec_int_def dec_nat.simps)
  from colour_policy [OF sample_names, of file_libc "''open failed:''" "[]" "Some ''Note:''"]
    colour_policy [OF sample_names, of tty_libc "''open failed:''" "[]" "Some ''Note:''"]
    sample_names plain tty
  show ?thesis
    by (simp add: pos)
qed

text \<open>
  C8, as it is stated, fails for the tag of \<^verbatim>\<open>teprintf\<close>. On a terminal, with the tag
  \<^verbatim>\<open>Note:\<close>, the source name and the position are written between colour and reset
  sequences, but the tag is written as the piece \<^verbatim>\<open>" Note: "\<close>, which holds no escape
  character; nowhere in the line is the tag followed by the reset sequence.
\<close>

theorem teprintf_tag_is_not_wrapped:
  "isatty_stderr tty_libc \<and>
   emitted sample_world
     (teprintf tty_libc (Some ''Note:'') ''bad token'' [] sample_world :: unit outcome) =
     [Flush_stdout, Write_stderr ''cc:'',
      Write_stderr ('' '' @ ASCII_BOLD_WHITE @ ''t.src:'' @ ASCII_RESET),
      Write_stderr (ASCII_BOLD_WHITE @ ''3:7'' @ ASCII_RESET @ '':''),
      Write_stderr '' Note: '', Write_stderr ''bad token'', Write_stderr [CHR 0x0A]] \<and>
   esc_free '' Note: '' \<and>
   \<not> sublist (''Note:'' @ ASCII_RESET)
       (stderr_text (emitted sample_world
          (teprintf tty_libc (Some ''Note:'') ''bad token'' [] sample_world :: unit outcome)))"
proof -
  have pos: "dec_int (line (position sample_world)) = ''3''"
    "dec_int (col (position sample_world)) = ''7''"
    by (simp_all add: sample_world_def dec_int_def dec_nat.simps)
  have em: "emitted sample_world
     (teprintf tty_libc (Some ''Note:'') ''bad token'' [] sample_world :: unit outcome) =
     [Flush_stdout, Write_stderr ''cc:'',
      Write_stderr ('' '' @ ASCII_BOLD_WHITE @ ''t.src:'' @ ASCII_RESET),
      Write_stderr (ASCII_BOLD_WHITE @ ''3:7'' @ ASCII_RESET @ '':''),
      Write_stderr '' Note: '', Write_stderr ''bad token'', Write_stderr [CHR 0x0A]]"
    by (simp add: teprintf_exits [OF sample_names] diag_events_def colour_on_def pos)
       (simp add: tty_libc_def)
  have "\<not> sublist (''Note:'' @ ASCII_RESET)
       (stderr_text [Flush_stdout, Write_stderr ''cc:'',
      Write_stderr ('' '' @ ASCII_BOLD_WHITE @ ''t.src:'' @ ASCII_RESET),
      Write_stderr (ASCII_BOLD_WHITE @ ''3:7'' @ ASCII_RESET @ '':''),
      Write_stderr '' Note: '', Write_stderr ''bad token'', Write_stderr [CHR 0x0A]])"
    by (simp add: ASCII_RESET_def ASCII_BOLD_WHITE_def ESC_def BOLD_def sublist_Cons_right)
  then show ?thesis
    by (simp add: em) (simp add: tty_libc_def esc_free_def)
qed

end
